theory Spec2Isabelle
  imports Complex_Main
begin

section \<open>Python strings, paths and number formatting\<close>

text \<open>
  Strings are byte lists; \<^verbatim>\<open>str.lower\<close> and \<^verbatim>\<open>str.upper\<close> are modelled on the ASCII
  letters. \<^verbatim>\<open>Path.name\<close> and \<^verbatim>\<open>Path.suffix\<close> follow \<^verbatim>\<open>pathlib.PurePosixPath\<close>: the
  name is the last component that is neither empty nor a single dot, the suffix starts at
  the last dot of the name unless that dot is the first or the last character.
\<close>

definition lower_char :: "char \<Rightarrow> char" where
  "lower_char c =
     (case map_of (zip ''ABCDEFGHIJKLMNOPQRSTUVWXYZ'' ''abcdefghijklmnopqrstuvwxyz'') c of
        Some d \<Rightarrow> d
      | None \<Rightarrow> c)"

definition upper_char :: "char \<Rightarrow> char" where
  "upper_char c =
     (case map_of (zip ''abcdefghijklmnopqrstuvwxyz'' ''ABCDEFGHIJKLMNOPQRSTUVWXYZ'') c of
        Some d \<Rightarrow> d
      | None \<Rightarrow> c)"

definition lower :: "string \<Rightarrow> string" where
  "lower s = map lower_char s"

definition upper :: "string \<Rightarrow> string" where
  "upper s = map upper_char s"

definition lstrip :: "char \<Rightarrow> string \<Rightarrow> string" where
  "lstrip c s = dropWhile (\<lambda>x. x = c) s"

fun split_on :: "char \<Rightarrow> string \<Rightarrow> string list" where
  "split_on c [] = [[]]"
| "split_on c (x # xs) =
     (if x = c then [] # split_on c xs
      else (case split_on c xs of [] \<Rightarrow> [[x]] | p # ps \<Rightarrow> (x # p) # ps))"

fun join :: "string \<Rightarrow> string list \<Rightarrow> string" where
  "join sep [] = []"
| "join sep [x] = x"
| "join sep (x # y # ys) = x @ sep @ join sep (y # ys)"

text \<open>\<^verbatim>\<open>str.rfind\<close>: the index of the last occurrence, \<open>-1\<close> when there is none.\<close>

definition rfind :: "char \<Rightarrow> string \<Rightarrow> int" where
  "rfind c s =
     (if c \<in> set s
      then int (length s) - 1 - int (length (takeWhile (\<lambda>x. x \<noteq> c) (rev s)))
      else - 1)"

definition path_parts :: "string \<Rightarrow> string list" where
  "path_parts p = filter (\<lambda>q. q \<noteq> [] \<and> q \<noteq> ''.'') (split_on CHR ''/'' p)"

definition path_name :: "string \<Rightarrow> string" where
  "path_name p = (case rev (path_parts p) of [] \<Rightarrow> [] | n # _ \<Rightarrow> n)"

definition path_suffix :: "string \<Rightarrow> string" where
  "path_suffix p =
     (let name = path_name p; i = rfind CHR ''.'' name
      in if 0 < i \<and> i < int (length name) - 1 then drop (nat i) name else [])"

text \<open>The extension as the code computes it: \<^verbatim>\<open>Path(p).suffix.lstrip(".").lower()\<close>.\<close>

definition extension_of :: "string \<Rightarrow> string" where
  "extension_of p = lower (lstrip CHR ''.'' (path_suffix p))"

text \<open>\<^verbatim>\<open>str(n)\<close> of an integer, in decimal.\<close>

definition digit_char :: "nat \<Rightarrow> char" where
  "digit_char d = ''0123456789'' ! (d mod 10)"

function digits :: "nat \<Rightarrow> string" where
  "digits n = (if n < 10 then [digit_char n] else digits (n div 10) @ [digit_char (n mod 10)])"
  by pat_completeness auto
termination
  by (relation "measure (\<lambda>n. n)") auto

declare digits.simps [simp del]

definition str_int :: "int \<Rightarrow> string" where
  "str_int i = (if i < 0 then CHR ''-'' # digits (nat (- i)) else digits (nat i))"

text \<open>
  A Python float is modelled by the rational it denotes. \<^verbatim>\<open>format(x, ".df")\<close> rounds
  the exact value to \<open>d\<close> decimals, ties to even.
\<close>

definition round_half_even :: "rat \<Rightarrow> int" where
  "round_half_even r =
     (let f = \<lfloor>r\<rfloor>; d = r - of_int f
      in if d < 1 / 2 then f
         else if 1 / 2 < d then f + 1
         else if even f then f else f + 1)"

definition format_f :: "nat \<Rightarrow> rat \<Rightarrow> string" where
  "format_f d r =
     (let ds = digits (nat (round_half_even (\<bar>r\<bar> * 10 ^ d)));
          padded = replicate (Suc d - length ds) CHR ''0'' @ ds;
          whole = take (length padded - d) padded;
          frac = drop (length padded - d) padded
      in (if r < 0 then ''-'' else []) @ whole @ (if d = 0 then [] else CHR ''.'' # frac))"

section \<open>Exceptions (app/core/exceptions.py and the libraries')\<close>

text \<open>
  Each constructor carries what the Python class stores. \<open>LibraryError\<close> stands for any
  other exception raised by an external library, with its message; \<open>ValidationError\<close> is
  pydantic's, carrying the name of the rejected model.
\<close>

datatype exn =
    CollectionNotFoundError string
  | UnsupportedFileTypeError string "string list"
  | FileTooLargeError rat int
  | PageLimitExceededError int int
  | ProcessingError string "exn option"
  | LLMError string "exn option"
  | NoActiveSessionError
  | QueryError string "exn option"
  | DocumentProcessingError string
  | ValueError string
  | FileNotFoundError string
  | ValidationError string
  | LibraryError string

text \<open>\<^verbatim>\<open>str(e)\<close>: the message each class passes to \<^verbatim>\<open>Exception.__init__\<close>.\<close>

fun str_exn :: "exn \<Rightarrow> string" where
  "str_exn (CollectionNotFoundError n) = ''Collection '' @ [CHR 0x27] @ n @ [CHR 0x27] @ '' not found''"
| "str_exn (UnsupportedFileTypeError ext allowed) =
     ''File type '' @ [CHR 0x27] @ ''.'' @ ext @ [CHR 0x27] @
     '' is not supported. Allowed types: '' @ join '', '' allowed"
| "str_exn (FileTooLargeError size_mb max_size_mb) =
     ''File size '' @ format_f 1 size_mb @ ''MB exceeds limit of '' @ str_int max_size_mb @ ''MB''"
| "str_exn (PageLimitExceededError pages max_pages) =
     ''Document has '' @ str_int pages @ '' pages, exceeds limit of '' @ str_int max_pages @ '' pages''"
| "str_exn (ProcessingError msg _) = msg"
| "str_exn (LLMError msg _) = msg"
| "str_exn NoActiveSessionError = ''No document loaded. Please upload a document first.''"
| "str_exn (QueryError msg _) = msg"
| "str_exn (DocumentProcessingError msg) = msg"
| "str_exn (ValueError msg) = msg"
| "str_exn (FileNotFoundError msg) = msg"
| "str_exn (ValidationError msg) = msg"
| "str_exn (LibraryError msg) = msg"

text \<open>pydantic's \<^verbatim>\<open>ValidationError\<close> is a subclass of \<^verbatim>\<open>ValueError\<close>.\<close>

fun is_ValueError :: "exn \<Rightarrow> bool" where
  "is_ValueError (ValueError _) = True"
| "is_ValueError (ValidationError _) = True"
| "is_ValueError _ = False"

section \<open>Session registry (app/core/session.py)\<close>

text \<open>
  \<^verbatim>\<open>SessionState\<close> is the pydantic model of the loaded document, with its defaults.
  Timestamps are modelled as integers (seconds), a missing value as \<open>None\<close>.
\<close>

record session_state =
  is_active :: bool
  filename :: "string option"
  page_count :: int
  chunk_count :: int
  created_at :: "int option"
  collection_name :: "string option"

text \<open>\<^verbatim>\<open>SessionState()\<close>: every field at its default.\<close>

definition SessionState :: session_state where
  "SessionState =
     \<lparr>is_active = False, filename = None, page_count = 0, chunk_count = 0,
      created_at = None, collection_name = None\<rparr>"

text \<open>
  \<^verbatim>\<open>create_session\<close> draws \<^verbatim>\<open>uuid.uuid4().hex\<close> and \<^verbatim>\<open>datetime.utcnow()\<close>; both are
  inputs of the model. It returns the collection name and the replaced state.
\<close>

definition create_session ::
  "string \<Rightarrow> int \<Rightarrow> session_state \<Rightarrow> string \<Rightarrow> int \<Rightarrow> int \<Rightarrow> string \<times> session_state" where
  "create_session uuid4_hex utcnow st fname pages chunks =
     (let name = ''session_'' @ take 12 uuid4_hex
      in (name,
          \<lparr>is_active = True, filename = Some fname, page_count = pages,
           chunk_count = chunks, created_at = Some utcnow, collection_name = Some name\<rparr>))"

definition get_state :: "session_state \<Rightarrow> session_state" where
  "get_state st = st"

text \<open>\<^verbatim>\<open>clear_session\<close> returns the old collection name and the default state.\<close>

definition clear_session :: "session_state \<Rightarrow> string option \<times> session_state" where
  "clear_session st = (collection_name st, SessionState)"

text \<open>
  The operations a caller can run on the registry. The reads (\<^verbatim>\<open>get_state\<close>, the
  properties \<^verbatim>\<open>is_active\<close> and \<^verbatim>\<open>collection_name\<close>) leave the state as it is.
\<close>

datatype session_op =
    Create_session string int string int int
  | Clear_session
  | Get_state
  | Read_is_active
  | Read_collection_name

fun session_step :: "session_state \<Rightarrow> session_op \<Rightarrow> session_state" where
  "session_step st (Create_session u t f p c) = snd (create_session u t st f p c)"
| "session_step st Clear_session = snd (clear_session st)"
| "session_step st Get_state = st"
| "session_step st Read_is_active = st"
| "session_step st Read_collection_name = st"

definition session_run :: "session_op list \<Rightarrow> session_state" where
  "session_run ops = foldl session_step SessionState ops"

section \<open>Settings, documents and the state of the process\<close>

text \<open>The fields of \<^verbatim>\<open>Settings\<close> (app/config.py) that the modelled code reads.\<close>

record settings =
  max_page_limit :: int
  top_k_chunks :: int
  allowed_extensions :: "string list"
  max_file_size_mb :: int

text \<open>
  A langchain \<^verbatim>\<open>Document\<close>: its text and the metadata keys this program reads or
  writes, each absent (\<open>None\<close>) or present with the type the loaders give it.
\<close>

record metadata =
  md_page :: "int option"
  md_chunk_index :: "int option"
  md_filename :: "string option"
  md_source :: "string option"
  md_file_type :: "string option"

record document =
  page_content :: string
  doc_metadata :: metadata

datatype message = SystemMessage string | HumanMessage string

text \<open>
  The calls the services make to their external collaborators, in the order they are
  made: the temp file of an upload (by its suffix), the document processor (by path),
  Chroma's deletion, indexing and similarity search (with the number of results asked
  for), and the chat model's stream.
\<close>

datatype call =
    Call_save_temp_file string
  | Call_process_document string
  | Call_delete_collection string
  | Call_from_documents string
  | Call_similarity_search string string int
  | Call_astream "message list"

text \<open>
  The mutable state of the process: the singleton \<^verbatim>\<open>SessionManager._state\<close>, the
  singleton \<^verbatim>\<open>VectorStoreService._collections\<close> (a collection is the documents indexed
  in it), the files of the temp directory, and the log of collaborator calls.
\<close>

record world =
  session :: session_state
  collections :: "string \<rightharpoonup> document list"
  files :: "string set"
  calls :: "call list"

text \<open>
  What the outside does during one request: the uuid and the clock read by
  \<^verbatim>\<open>create_session\<close>, the name \<^verbatim>\<open>NamedTemporaryFile\<close> picks (before the suffix) and
  whether creating or writing it fails, the langchain loaders and splitter, Chroma, and
  the chat model. A stream is the list of the fragments it yields and the exception that
  ends it, if any.
\<close>

record env =
  uuid4_hex :: string
  utcnow :: int
  tmp_prefix :: string
  tmp_create :: "exn option"
  upload_read :: "exn option"
  loader_new :: "string \<Rightarrow> string \<Rightarrow> exn option"
  loader_load :: "string \<Rightarrow> string \<Rightarrow> exn + document list"
  split_documents :: "document list \<Rightarrow> exn + document list"
  from_documents :: "string \<Rightarrow> document list \<Rightarrow> exn option"
  chroma_delete :: "string \<Rightarrow> exn option"
  similarity_search :: "document list \<Rightarrow> string \<Rightarrow> int \<Rightarrow> exn + (document \<times> rat) list"
  astream :: "message list \<Rightarrow> string list \<times> exn option"

definition log_call :: "call \<Rightarrow> world \<Rightarrow> world" where
  "log_call c w = w\<lparr>calls := calls w @ [c]\<rparr>"

section \<open>Vector store service (app/services/vector_store_service.py)\<close>

record retrieved_chunk =
  rc_content :: string
  rc_page_number :: int
  rc_chunk_index :: int
  rc_relevance_score :: rat
  rc_source :: string

text \<open>
  The constructor of the pydantic model \<^verbatim>\<open>RetrievedChunk\<close>, with the bounds of its
  fields: \<^verbatim>\<open>page_number >= 1\<close>, \<^verbatim>\<open>chunk_index >= 0\<close>, \<^verbatim>\<open>0 <= relevance_score <= 1\<close>.
\<close>

definition RetrievedChunk ::
  "string \<Rightarrow> int \<Rightarrow> int \<Rightarrow> rat \<Rightarrow> string \<Rightarrow> exn + retrieved_chunk" where
  "RetrievedChunk c p i s src =
     (if 1 \<le> p \<and> 0 \<le> i \<and> 0 \<le> s \<and> s \<le> 1
      then Inr \<lparr>rc_content = c, rc_page_number = p, rc_chunk_index = i,
                rc_relevance_score = s, rc_source = src\<rparr>
      else Inl (ValidationError ''RetrievedChunk''))"

text \<open>\<^verbatim>\<open>dict.get(key, default)\<close>.\<close>

definition get_or :: "'a option \<Rightarrow> 'a \<Rightarrow> 'a" where
  "get_or v d = (case v of None \<Rightarrow> d | Some x \<Rightarrow> x)"

definition create_collection ::
  "env \<Rightarrow> world \<Rightarrow> string \<Rightarrow> document list \<Rightarrow> world \<times> (exn + int)" where
  "create_collection ev w name documents =
     (if name \<in> dom (collections w)
      then (w, Inl (ValueError (''Collection '' @ [CHR 0x27] @ name @ [CHR 0x27] @ '' already exists'')))
      else (let w1 = log_call (Call_from_documents name) w
            in case from_documents ev name documents of
                 Some e \<Rightarrow> (w1, Inl e)
               | None \<Rightarrow>
                   (w1\<lparr>collections := (collections w1)(name \<mapsto> documents)\<rparr>,
                    Inr (int (length documents)))))"

definition get_collection :: "world \<Rightarrow> string \<Rightarrow> exn + document list" where
  "get_collection w name =
     (case collections w name of
        None \<Rightarrow> Inl (CollectionNotFoundError name)
      | Some c \<Rightarrow> Inr c)"

text \<open>The loop of \<^verbatim>\<open>query\<close> that converts Chroma's results; the first rejected chunk raises.\<close>

fun to_chunks :: "(document \<times> rat) list \<Rightarrow> exn + retrieved_chunk list" where
  "to_chunks [] = Inr []"
| "to_chunks ((doc, score) # results) =
     (case RetrievedChunk (page_content doc)
             (get_or (md_page (doc_metadata doc)) 0 + 1)
             (get_or (md_chunk_index (doc_metadata doc)) 0)
             score
             (get_or (md_filename (doc_metadata doc))
                (get_or (md_source (doc_metadata doc)) ''unknown'')) of
        Inl e \<Rightarrow> Inl e
      | Inr chunk \<Rightarrow>
          (case to_chunks results of
             Inl e \<Rightarrow> Inl e
           | Inr chunks \<Rightarrow> Inr (chunk # chunks)))"

text \<open>\<^verbatim>\<open>VectorStoreService.query\<close>; \<^verbatim>\<open>top_k = None\<close> falls back to the settings.\<close>

definition query ::
  "settings \<Rightarrow> env \<Rightarrow> world \<Rightarrow> string \<Rightarrow> string \<Rightarrow> int option \<Rightarrow>
   world \<times> (exn + retrieved_chunk list)" where
  "query cfg ev w name query_text top_k =
     (case get_collection w name of
        Inl e \<Rightarrow> (w, Inl e)
      | Inr collection \<Rightarrow>
          (let k = (case top_k of None \<Rightarrow> top_k_chunks cfg | Some k \<Rightarrow> k);
               w1 = log_call (Call_similarity_search name query_text k) w
           in case similarity_search ev collection query_text k of
                Inl e \<Rightarrow> (w1, Inl e)
              | Inr results \<Rightarrow> (w1, to_chunks results)))"

text \<open>
  \<^verbatim>\<open>delete_collection\<close>: \<open>False\<close> when the collection is not tracked; Chroma's own
  deletion may raise, and then the collection stays tracked.
\<close>

definition delete_collection :: "env \<Rightarrow> world \<Rightarrow> string \<Rightarrow> world \<times> (exn + bool)" where
  "delete_collection ev w name =
     (if name \<notin> dom (collections w) then (w, Inr False)
      else (let w1 = log_call (Call_delete_collection name) w
            in case chroma_delete ev name of
                 Some e \<Rightarrow> (w1, Inl e)
               | None \<Rightarrow> (w1\<lparr>collections := (collections w1)(name := None)\<rparr>, Inr True)))"

section \<open>LLM service (app/services/llm_service.py)\<close>

text \<open>
  \<^verbatim>\<open>generate_stream\<close> yields the non-empty fragments of the model's stream and turns
  any exception into \<^verbatim>\<open>LLMError\<close>. The result is the fragments yielded and the
  exception raised after them, if any.
\<close>

definition generate_stream ::
  "env \<Rightarrow> world \<Rightarrow> string \<Rightarrow> string option \<Rightarrow> world \<times> string list \<times> exn option" where
  "generate_stream ev w prompt system_prompt =
     (let messages =
            (case system_prompt of
               None \<Rightarrow> []
             | Some s \<Rightarrow> if s = [] then [] else [SystemMessage s]) @ [HumanMessage prompt];
          w1 = log_call (Call_astream messages) w
      in case astream ev messages of
           (contents, failure) \<Rightarrow>
             (w1, filter (\<lambda>c. c \<noteq> []) contents,
              (case failure of
                 None \<Rightarrow> None
               | Some e \<Rightarrow>
                   Some (LLMError ''Failed to generate streaming response from LLM'' (Some e)))))"

section \<open>Query service (app/services/query_service.py)\<close>

definition nl :: string where
  "nl = [CHR 0x0A]"

definition RAG_SYSTEM_PROMPT :: string where
  "RAG_SYSTEM_PROMPT =
     ''You are a helpful assistant that answers questions based on the provided document context.'' @ nl @
     nl @
     ''Instructions:'' @ nl @
     ''- Answer the question based ONLY on the provided context'' @ nl @
     ''- If the context doesn'' @ [CHR 0x27] @ ''t contain enough information to answer, say so clearly'' @ nl @
     ''- Be concise and direct in your answers'' @ nl @
     ''- Reference specific parts of the document when relevant'' @ nl @
     ''- Do not make up information not present in the context''"

text \<open>\<^verbatim>\<open>RAG_USER_PROMPT_TEMPLATE.format(context=..., question=...)\<close>.\<close>

definition RAG_USER_PROMPT_TEMPLATE :: "string \<Rightarrow> string \<Rightarrow> string" where
  "RAG_USER_PROMPT_TEMPLATE ctx question =
     ''Context from document:'' @ nl @
     ctx @ nl @
     nl @
     ''---'' @ nl @
     nl @
     ''Question: '' @ question @ nl @
     nl @
     ''Answer:''"

record query_context =
  ctx_chunks :: "retrieved_chunk list"
  formatted_context :: string

text \<open>The model \<^verbatim>\<open>Source\<close> (app/models/schemas.py) and its validating constructor.\<close>

record source =
  src_content :: string
  src_page_number :: int
  src_chunk_index :: int
  src_relevance_score :: rat
  src_filename :: string

definition Source :: "string \<Rightarrow> int \<Rightarrow> int \<Rightarrow> rat \<Rightarrow> string \<Rightarrow> exn + source" where
  "Source c p i s f =
     (if 1 \<le> p \<and> 0 \<le> i \<and> 0 \<le> s \<and> s \<le> 1
      then Inr \<lparr>src_content = c, src_page_number = p, src_chunk_index = i,
                src_relevance_score = s, src_filename = f\<rparr>
      else Inl (ValidationError ''Source''))"

text \<open>\<^verbatim>\<open>StreamingQueryResponse\<close> and the three shapes \<^verbatim>\<open>query_stream\<close> yields.\<close>

record streaming_query_response =
  token :: "string option"
  sources :: "source list option"
  is_done :: bool
  error :: "string option"

definition token_response :: "string \<Rightarrow> streaming_query_response" where
  "token_response t = \<lparr>token = Some t, sources = None, is_done = False, error = None\<rparr>"

definition sources_response :: "source list \<Rightarrow> streaming_query_response" where
  "sources_response ss = \<lparr>token = None, sources = Some ss, is_done = False, error = None\<rparr>"

definition done_response :: streaming_query_response where
  "done_response = \<lparr>token = None, sources = None, is_done = True, error = None\<rparr>"

text \<open>The service object: of its fields only \<^verbatim>\<open>_top_k\<close> is data, the others are the
  singletons held in the state.\<close>

record query_service =
  svc_top_k :: int

definition get_query_service :: "settings \<Rightarrow> query_service" where
  "get_query_service cfg = \<lparr>svc_top_k = top_k_chunks cfg\<rparr>"

definition format_chunk :: "nat \<times> retrieved_chunk \<Rightarrow> string" where
  "format_chunk ic =
     ''[Chunk '' @ str_int (int (fst ic)) @ '' - Page '' @ str_int (rc_page_number (snd ic)) @
     '', Score: '' @ format_f 2 (rc_relevance_score (snd ic)) @ '']'' @ nl @ rc_content (snd ic)"

definition retrieve_context ::
  "settings \<Rightarrow> query_service \<Rightarrow> env \<Rightarrow> world \<Rightarrow> string \<Rightarrow> string \<Rightarrow>
   world \<times> (exn + query_context)" where
  "retrieve_context cfg svc ev w question name =
     (case query cfg ev w name question (Some (svc_top_k svc)) of
        (w1, Inl e) \<Rightarrow> (w1, Inl e)
      | (w1, Inr cs) \<Rightarrow>
          (w1, Inr \<lparr>ctx_chunks = cs,
                    formatted_context =
                      join (nl @ nl) (map format_chunk (zip [1 ..< Suc (length cs)] cs))\<rparr>))"

definition build_prompt :: "string \<Rightarrow> query_context \<Rightarrow> string" where
  "build_prompt question ctx = RAG_USER_PROMPT_TEMPLATE (formatted_context ctx) question"

fun chunks_to_sources :: "retrieved_chunk list \<Rightarrow> exn + source list" where
  "chunks_to_sources [] = Inr []"
| "chunks_to_sources (chunk # rest) =
     (case Source (rc_content chunk) (rc_page_number chunk) (rc_chunk_index chunk)
             (rc_relevance_score chunk) (rc_source chunk) of
        Inl e \<Rightarrow> Inl e
      | Inr s \<Rightarrow>
          (case chunks_to_sources rest of
             Inl e \<Rightarrow> Inl e
           | Inr ss \<Rightarrow> Inr (s # ss)))"

text \<open>
  The outermost handlers of \<^verbatim>\<open>query_stream\<close>: \<^verbatim>\<open>NoActiveSessionError\<close> and
  \<^verbatim>\<open>QueryError\<close> pass, every other exception is wrapped.
\<close>

fun query_stream_reraise :: "exn \<Rightarrow> exn" where
  "query_stream_reraise NoActiveSessionError = NoActiveSessionError"
| "query_stream_reraise (QueryError m orig) = QueryError m orig"
| "query_stream_reraise e = QueryError ''An unexpected error occurred during query'' (Some e)"

text \<open>The handlers around the loop over \<^verbatim>\<open>generate_stream\<close>.\<close>

fun llm_reraise :: "exn \<Rightarrow> exn" where
  "llm_reraise (LLMError m orig) =
     QueryError ''Failed to generate response from LLM'' (Some (LLMError m orig))"
| "llm_reraise e = e"

text \<open>
  \<^verbatim>\<open>query_stream\<close> is an async generator: its result is the list of the responses it
  yields, in order, and the exception that ends it (\<open>None\<close> when it returns). The stream
  is read to its end.
\<close>

definition query_stream ::
  "settings \<Rightarrow> query_service \<Rightarrow> env \<Rightarrow> world \<Rightarrow> string \<Rightarrow>
   world \<times> streaming_query_response list \<times> exn option" where
  "query_stream cfg svc ev w question =
     (if \<not> is_active (session w) then (w, [], Some (query_stream_reraise NoActiveSessionError))
      else case collection_name (session w) of
        None \<Rightarrow> (w, [], Some (query_stream_reraise NoActiveSessionError))
      | Some name \<Rightarrow>
          if name = [] then (w, [], Some (query_stream_reraise NoActiveSessionError))
          else (case retrieve_context cfg svc ev w question name of
            (w1, Inl e) \<Rightarrow>
              (w1, [],
               Some (query_stream_reraise
                 (QueryError ''Failed to retrieve relevant context from vector store'' (Some e))))
          | (w1, Inr ctx) \<Rightarrow>
              (case generate_stream ev w1 (build_prompt question ctx) (Some RAG_SYSTEM_PROMPT) of
                 (w2, tokens, Some e) \<Rightarrow>
                   (w2, map token_response tokens, Some (query_stream_reraise (llm_reraise e)))
               | (w2, tokens, None) \<Rightarrow>
                   (case chunks_to_sources (ctx_chunks ctx) of
                      Inl e \<Rightarrow> (w2, map token_response tokens, Some (query_stream_reraise e))
                    | Inr ss \<Rightarrow>
                        (w2, map token_response tokens @ [sources_response ss, done_response],
                         None)))))"

section \<open>Query route (app/api/routes/query.py)\<close>

text \<open>\<^verbatim>\<open>QueryRequest\<close>: a non-empty query and an optional \<^verbatim>\<open>top_k\<close> between 1 and 10.\<close>

record query_request =
  rq_query :: string
  rq_top_k :: "int option"

definition QueryRequest :: "string \<Rightarrow> int option \<Rightarrow> exn + query_request" where
  "QueryRequest q k =
     (if 1 \<le> length q \<and> (case k of None \<Rightarrow> True | Some t \<Rightarrow> 1 \<le> t \<and> t \<le> 10)
      then Inr \<lparr>rq_query = q, rq_top_k = k\<rparr>
      else Inl (ValidationError ''QueryRequest''))"

text \<open>The server-sent events of the route, by event name, with the payload of each.\<close>

datatype sse_event =
    Token_event string
  | Sources_event "source list"
  | Done_event
  | Error_event string

text \<open>
  The loop of \<^verbatim>\<open>event_generator\<close> over the responses: a response with a truthy
  \<^verbatim>\<open>error\<close> ends the generator (the flag returned is \<open>True\<close>), otherwise each field that
  is set gives one event.
\<close>

fun events_of_responses :: "streaming_query_response list \<Rightarrow> sse_event list \<times> bool" where
  "events_of_responses [] = ([], False)"
| "events_of_responses (r # rs) =
     (case error r of
        Some (c # cs) \<Rightarrow> ([Error_event (c # cs)], True)
      | _ \<Rightarrow>
          (let here =
                 (case token r of None \<Rightarrow> [] | Some t \<Rightarrow> [Token_event t]) @
                 (case sources r of None \<Rightarrow> [] | Some ss \<Rightarrow> [Sources_event ss]) @
                 (if is_done r then [Done_event] else [])
           in case events_of_responses rs of (evs, stopped) \<Rightarrow> (here @ evs, stopped)))"

fun event_of_exn :: "exn \<Rightarrow> sse_event" where
  "event_of_exn NoActiveSessionError = Error_event (str_exn NoActiveSessionError)"
| "event_of_exn (QueryError m orig) = Error_event (str_exn (QueryError m orig))"
| "event_of_exn e = Error_event ''An unexpected error occurred''"

text \<open>
  \<^verbatim>\<open>event_generator\<close> of \<^verbatim>\<open>query_document\<close>: the request's query is what it passes to
  \<^verbatim>\<open>query_stream\<close>.
\<close>

definition event_generator ::
  "settings \<Rightarrow> query_service \<Rightarrow> env \<Rightarrow> world \<Rightarrow> query_request \<Rightarrow> world \<times> sse_event list" where
  "event_generator cfg svc ev w request =
     (case query_stream cfg svc ev w (rq_query request) of
        (w1, responses, raised) \<Rightarrow>
          (case events_of_responses responses of
             (evs, True) \<Rightarrow> (w1, evs)
           | (evs, False) \<Rightarrow>
               (case raised of
                  None \<Rightarrow> (w1, evs)
                | Some e \<Rightarrow> (w1, evs @ [event_of_exn e]))))"

text \<open>\<^verbatim>\<open>query_document\<close> with its injected service (\<^verbatim>\<open>get_query_service\<close>).\<close>

definition query_document ::
  "settings \<Rightarrow> env \<Rightarrow> world \<Rightarrow> query_request \<Rightarrow> world \<times> sse_event list" where
  "query_document cfg ev w request = event_generator cfg (get_query_service cfg) ev w request"

section \<open>Document processor (app/core/document_processor.py)\<close>

record processed_document =
  pd_filename :: string
  pd_file_type :: string
  pd_total_chunks :: int
  pd_chunks :: "document list"

text \<open>The keys of \<^verbatim>\<open>DocumentProcessor._LOADERS\<close>.\<close>

definition LOADERS :: "string list" where
  "LOADERS = [''pdf'', ''docx'', ''txt'']"

text \<open>
  \<^verbatim>\<open>_load_document\<close>: the loader's constructor runs outside the \<^verbatim>\<open>try\<close>, its
  \<^verbatim>\<open>load\<close> inside; an empty result becomes one empty document.
\<close>

definition load_document :: "env \<Rightarrow> string \<Rightarrow> string \<Rightarrow> exn + document list" where
  "load_document ev path file_extension =
     (case loader_new ev file_extension path of
        Some e \<Rightarrow> Inl e
      | None \<Rightarrow>
          (case loader_load ev file_extension path of
             Inl e \<Rightarrow>
               Inl (DocumentProcessingError
                 (''Failed to load '' @ upper file_extension @ '' file: '' @ str_exn e))
           | Inr documents \<Rightarrow>
               if documents = []
               then Inr [\<lparr>page_content = [],
                          doc_metadata =
                            \<lparr>md_page = None, md_chunk_index = None,
                             md_filename = Some (path_name path), md_source = Some path,
                             md_file_type = Some file_extension\<rparr>\<rparr>]
               else Inr documents))"

text \<open>\<^verbatim>\<open>chunk.metadata.update({"filename": ..., "file_type": ..., "source": ...})\<close>.\<close>

definition enrich :: "string \<Rightarrow> string \<Rightarrow> document \<Rightarrow> document" where
  "enrich path file_extension chunk =
     chunk\<lparr>doc_metadata :=
       (doc_metadata chunk)\<lparr>md_filename := Some (path_name path),
                             md_file_type := Some file_extension,
                             md_source := Some path\<rparr>\<rparr>"

text \<open>\<^verbatim>\<open>process_document\<close>, given the files that exist.\<close>

definition process_document :: "env \<Rightarrow> string set \<Rightarrow> string \<Rightarrow> exn + processed_document" where
  "process_document ev fs path =
     (if path \<notin> fs then Inl (FileNotFoundError (''File not found: '' @ path))
      else
        (let file_extension = extension_of path
         in if file_extension \<notin> set LOADERS
            then Inl (ValueError
                   (''Unsupported file extension: '' @ [CHR 0x27] @ file_extension @ [CHR 0x27] @
                    ''. Supported extensions: '' @ join '', '' LOADERS))
            else
              (case load_document ev path file_extension of
                 Inl e \<Rightarrow> Inl (DocumentProcessingError (''Failed to load document: '' @ str_exn e))
               | Inr documents \<Rightarrow>
                   (case split_documents ev documents of
                      Inl e \<Rightarrow>
                        Inl (DocumentProcessingError
                          (''Failed to split document into chunks: '' @ str_exn e))
                    | Inr chunks \<Rightarrow>
                        Inr \<lparr>pd_filename = path_name path,
                             pd_file_type = file_extension,
                             pd_total_chunks = int (length chunks),
                             pd_chunks = map (enrich path file_extension) chunks\<rparr>))))"

section \<open>Document service (app/services/document_service.py)\<close>

text \<open>What the service reads of a FastAPI \<^verbatim>\<open>UploadFile\<close>.\<close>

record upload_file =
  uf_filename :: "string option"
  uf_size :: "int option"

record document_upload_response =
  resp_filename :: string
  resp_file_type :: string
  resp_total_chunks :: int
  resp_message :: string

text \<open>
  \<^verbatim>\<open>_validate_file\<close>: \<open>None\<close> when it returns, the exception when it raises. A filename
  that is \<^verbatim>\<open>None\<close> or empty, and a size that is \<^verbatim>\<open>None\<close> or zero, are falsy.
  \<^verbatim>\<open>file.size / (1024 * 1024)\<close> is exact for every size below \<open>2 ^ 53\<close>.
\<close>

definition validate_file :: "settings \<Rightarrow> upload_file \<Rightarrow> exn option" where
  "validate_file cfg file =
     (case (case uf_filename file of
              Some (c # cs) \<Rightarrow>
                (let extension = extension_of (c # cs)
                 in if extension \<notin> set (allowed_extensions cfg)
                    then Some (UnsupportedFileTypeError extension (allowed_extensions cfg))
                    else None)
            | _ \<Rightarrow> None) of
        Some e \<Rightarrow> Some e
      | None \<Rightarrow>
          (case uf_size file of
             Some sz \<Rightarrow>
               if sz = 0 then None
               else
                 (let size_mb = (of_int sz :: rat) / (1024 * 1024)
                  in if size_mb > of_int (max_file_size_mb cfg)
                     then Some (FileTooLargeError size_mb (max_file_size_mb cfg))
                     else None)
           | None \<Rightarrow> None))"

text \<open>The suffix and the path of the temp file of an upload.\<close>

definition temp_suffix :: "upload_file \<Rightarrow> string" where
  "temp_suffix file =
     (case uf_filename file of Some (c # cs) \<Rightarrow> path_suffix (c # cs) | _ \<Rightarrow> ''.tmp'')"

definition temp_path :: "env \<Rightarrow> upload_file \<Rightarrow> string" where
  "temp_path ev file = tmp_prefix ev @ temp_suffix file"

text \<open>
  \<^verbatim>\<open>_save_temp_file\<close>: the file is created with \<^verbatim>\<open>delete=False\<close>, so it stays when
  reading the upload or writing fails after that.
\<close>

definition save_temp_file :: "env \<Rightarrow> world \<Rightarrow> upload_file \<Rightarrow> world \<times> (exn + string)" where
  "save_temp_file ev w file =
     (let w0 = log_call (Call_save_temp_file (temp_suffix file)) w
      in case tmp_create ev of
           Some e \<Rightarrow> (w0, Inl e)
         | None \<Rightarrow>
             (let w1 = w0\<lparr>files := insert (temp_path ev file) (files w0)\<rparr>
              in case upload_read ev of
                   Some e \<Rightarrow> (w1, Inl e)
                 | None \<Rightarrow> (w1, Inr (temp_path ev file))))"

text \<open>\<^verbatim>\<open>_cleanup_temp_file\<close> never raises.\<close>

definition cleanup_temp_file :: "world \<Rightarrow> string \<Rightarrow> world" where
  "cleanup_temp_file w path = w\<lparr>files := files w - {path}\<rparr>"

text \<open>
  \<^verbatim>\<open>_cleanup_old_session\<close>: a failure to delete the old collection is logged and
  dropped, then the session is cleared.
\<close>

definition cleanup_old_session :: "env \<Rightarrow> world \<Rightarrow> world" where
  "cleanup_old_session ev w =
     (if is_active (session w)
      then (let w1 = (case collection_name (session w) of
                        Some (c # cs) \<Rightarrow> fst (delete_collection ev w (c # cs))
                      | _ \<Rightarrow> w)
            in w1\<lparr>session := snd (clear_session (session w1))\<rparr>)
      else w)"

text \<open>\<^verbatim>\<open>_estimate_page_count\<close>; the loop keeps the largest \<^verbatim>\<open>page\<close> entry seen.\<close>

definition estimate_page_count :: "document list \<Rightarrow> int" where
  "estimate_page_count chunks =
     (if chunks = [] then 1
      else
        (let max_page =
               foldl (\<lambda>m chunk. case md_page (doc_metadata chunk) of
                                   Some p \<Rightarrow> max m p
                                 | None \<Rightarrow> m) 0 chunks
         in if max_page > 0 then max_page
            else max 1 (int (length chunks) div 3)))"

text \<open>The handlers around the call of \<^verbatim>\<open>process_document\<close>.\<close>

definition process_document_reraise :: "settings \<Rightarrow> string \<Rightarrow> exn \<Rightarrow> exn" where
  "process_document_reraise cfg temp_file_path e =
     (if is_ValueError e
      then UnsupportedFileTypeError (extension_of temp_file_path) (allowed_extensions cfg)
      else (case e of
              DocumentProcessingError m \<Rightarrow>
                ProcessingError (''Failed to process document: '' @ str_exn e) (Some e)
            | _ \<Rightarrow> e))"

text \<open>The outermost handlers of \<^verbatim>\<open>process_upload\<close>: the four expected classes pass,
  every other exception is wrapped.\<close>

fun process_upload_reraise :: "exn \<Rightarrow> exn" where
  "process_upload_reraise (UnsupportedFileTypeError x a) = UnsupportedFileTypeError x a"
| "process_upload_reraise (FileTooLargeError s m) = FileTooLargeError s m"
| "process_upload_reraise (PageLimitExceededError p m) = PageLimitExceededError p m"
| "process_upload_reraise (ProcessingError m orig) = ProcessingError m orig"
| "process_upload_reraise e =
     ProcessingError ''An unexpected error occurred during document processing'' (Some e)"

text \<open>
  Steps 3 to 8 of \<^verbatim>\<open>process_upload\<close>, the part of its \<^verbatim>\<open>try\<close> block that runs once
  the temp file is saved.
\<close>

definition process_saved ::
  "settings \<Rightarrow> env \<Rightarrow> world \<Rightarrow> upload_file \<Rightarrow> string \<Rightarrow>
   world \<times> (exn + document_upload_response)" where
  "process_saved cfg ev w file temp_file_path =
     (let w1 = cleanup_old_session ev w;
          w2 = log_call (Call_process_document temp_file_path) w1
      in case process_document ev (files w2) temp_file_path of
           Inl e \<Rightarrow> (w2, Inl (process_document_reraise cfg temp_file_path e))
         | Inr processed_doc \<Rightarrow>
             (let pages = estimate_page_count (pd_chunks processed_doc)
              in if pages > max_page_limit cfg
                 then (w2, Inl (PageLimitExceededError pages (max_page_limit cfg)))
                 else
                   (let original_filename =
                          (case uf_filename file of
                             Some (c # cs) \<Rightarrow> c # cs
                           | _ \<Rightarrow> pd_filename processed_doc);
                        created = create_session (uuid4_hex ev) (utcnow ev) (session w2)
                                    original_filename pages (pd_total_chunks processed_doc);
                        w3 = w2\<lparr>session := snd created\<rparr>
                    in case create_collection ev w3 (fst created) (pd_chunks processed_doc) of
                         (w4, Inl e) \<Rightarrow>
                           (w4\<lparr>session := snd (clear_session (session w4))\<rparr>,
                            Inl (ProcessingError ''Failed to create vector store collection''
                                  (Some e)))
                       | (w4, Inr n) \<Rightarrow>
                           (w4, Inr \<lparr>resp_filename = original_filename,
                                     resp_file_type = pd_file_type processed_doc,
                                     resp_total_chunks = pd_total_chunks processed_doc,
                                     resp_message =
                                       ''Document uploaded and processed successfully''\<rparr>))))"

text \<open>
  \<^verbatim>\<open>process_upload\<close>: validation, the temp file, the steps above, the outermost
  handlers, and the \<^verbatim>\<open>finally\<close> that removes the temp file once its path is known.
\<close>

definition process_upload ::
  "settings \<Rightarrow> env \<Rightarrow> world \<Rightarrow> upload_file \<Rightarrow> world \<times> (exn + document_upload_response)" where
  "process_upload cfg ev w file =
     (case validate_file cfg file of
        Some e \<Rightarrow> (w, Inl (process_upload_reraise e))
      | None \<Rightarrow>
          (case save_temp_file ev w file of
             (w1, Inl e) \<Rightarrow> (w1, Inl (process_upload_reraise e))
           | (w1, Inr temp_file_path) \<Rightarrow>
               (case process_saved cfg ev w1 file temp_file_path of
                  (w2, Inl e) \<Rightarrow>
                    (cleanup_temp_file w2 temp_file_path, Inl (process_upload_reraise e))
                | (w2, Inr response) \<Rightarrow> (cleanup_temp_file w2 temp_file_path, Inr response))))"

section \<open>Auxiliary notions used to state the properties\<close>

text \<open>The page numbers found in the metadata of a list of chunks, in order.\<close>

definition observed_pages :: "document list \<Rightarrow> int list" where
  "observed_pages chunks = List.map_filter (\<lambda>chunk. md_page (doc_metadata chunk)) chunks"

text \<open>A chunk that satisfies the bounds of \<^verbatim>\<open>RetrievedChunk\<close>, and the source built from it.\<close>

definition valid_chunk :: "retrieved_chunk \<Rightarrow> bool" where
  "valid_chunk c =
     (1 \<le> rc_page_number c \<and> 0 \<le> rc_chunk_index c \<and>
      0 \<le> rc_relevance_score c \<and> rc_relevance_score c \<le> 1)"

definition source_of :: "retrieved_chunk \<Rightarrow> source" where
  "source_of c =
     \<lparr>src_content = rc_content c, src_page_number = rc_page_number c,
      src_chunk_index = rc_chunk_index c, src_relevance_score = rc_relevance_score c,
      src_filename = rc_source c\<rparr>"

section \<open>Sample inputs\<close>

definition chunk_on_page :: "int \<Rightarrow> document" where
  "chunk_on_page p =
     \<lparr>page_content = ''text'',
      doc_metadata = \<lparr>md_page = Some p, md_chunk_index = None, md_filename = None,
                      md_source = None, md_file_type = None\<rparr>\<rparr>"

definition chunk_without_page :: document where
  "chunk_without_page =
     \<lparr>page_content = ''text'',
      doc_metadata = \<lparr>md_page = None, md_chunk_index = None, md_filename = None,
                      md_source = None, md_file_type = None\<rparr>\<rparr>"

text \<open>The defaults of \<^verbatim>\<open>Settings\<close>.\<close>

definition default_settings :: settings where
  "default_settings =
     \<lparr>max_page_limit = 50, top_k_chunks = 3,
      allowed_extensions = [''pdf'', ''txt'', ''docx''], max_file_size_mb = 20\<rparr>"

text \<open>
  An outside in which every collaborator succeeds: the loader gives two chunks, the
  search gives the first \<open>k\<close> documents with score \<open>9/10\<close>, the model streams three
  fragments, one of them empty.
\<close>

definition env_ok :: env where
  "env_ok =
     \<lparr>uuid4_hex = ''0123456789abcdef0123456789abcdef'',
      utcnow = 0,
      tmp_prefix = ''/tmp/tmpa1b2c3'',
      tmp_create = None,
      upload_read = None,
      loader_new = (\<lambda>ext path. None),
      loader_load = (\<lambda>ext path. Inr [chunk_on_page 0, chunk_on_page 1]),
      split_documents = (\<lambda>documents. Inr documents),
      from_documents = (\<lambda>name documents. None),
      chroma_delete = (\<lambda>name. None),
      similarity_search = (\<lambda>documents q k. Inr (map (\<lambda>d. (d, 9 / 10)) (take (nat k) documents))),
      astream = (\<lambda>messages. ([''The '', [], ''answer''], None))\<rparr>"

text \<open>The process at start, and with one document loaded.\<close>

definition initial_world :: world where
  "initial_world = \<lparr>session = SessionState, collections = Map.empty, files = {}, calls = []\<rparr>"

definition loaded_world :: world where
  "loaded_world =
     \<lparr>session =
        \<lparr>is_active = True, filename = Some ''report.pdf'', page_count = 1, chunk_count = 2,
         created_at = Some 0, collection_name = Some ''session_aaaaaaaaaaaa''\<rparr>,
      collections = [''session_aaaaaaaaaaaa'' \<mapsto> [chunk_on_page 0, chunk_on_page 1]],
      files = {},
      calls = []\<rparr>"

section \<open>Unfolding the model on the sample inputs\<close>

lemmas path_defs = extension_of_def lower_def lower_char_def lstrip_def path_suffix_def
  path_name_def path_parts_def rfind_def

lemmas upload_defs = process_upload_def process_saved_def save_temp_file_def validate_file_def
  temp_path_def temp_suffix_def cleanup_old_session_def cleanup_temp_file_def
  delete_collection_def create_collection_def create_session_def clear_session_def
  process_document_def load_document_def enrich_def estimate_page_count_def
  process_document_reraise_def LOADERS_def log_call_def

lemmas query_defs = retrieve_context_def query_def get_collection_def RetrievedChunk_def
  get_or_def get_query_service_def generate_stream_def log_call_def

lemmas sample_defs = default_settings_def env_ok_def loaded_world_def initial_world_def
  chunk_on_page_def chunk_without_page_def SessionState_def

section \<open>Properties of the session registry\<close>

lemma session_step_inv:
  "is_active st = (collection_name st \<noteq> None) \<Longrightarrow>
   is_active (session_step st x) = (collection_name (session_step st x) \<noteq> None)"
  by (cases x) (simp_all add: create_session_def clear_session_def SessionState_def Let_def)

lemma foldl_session_step_inv:
  "is_active st = (collection_name st \<noteq> None) \<Longrightarrow>
   is_active (foldl session_step st ops) = (collection_name (foldl session_step st ops) \<noteq> None)"
proof (induction ops arbitrary: st)
  case Nil
  then show ?case by simp
next
  case (Cons x ops)
  have "is_active (session_step st x) = (collection_name (session_step st x) \<noteq> None)"
    using Cons.prems by (rule session_step_inv)
  then show ?case
    using Cons.IH by simp
qed

text \<open>
  C7. In every state of the registry reached from the initial state by a sequence of
  create, clear and read operations, the session is active exactly when its
  collection name is set.
\<close>

theorem session_active_iff_collection:
  "is_active (session_run ops) = (collection_name (session_run ops) \<noteq> None)"
  unfolding session_run_def
  by (rule foldl_session_step_inv) (simp add: SessionState_def)

section \<open>Properties of the page estimate\<close>

lemma foldl_page_step:
  "foldl (\<lambda>m chunk. case md_page (doc_metadata chunk) of Some p \<Rightarrow> max m p | None \<Rightarrow> m) m chunks
   = Max (insert m (set (observed_pages chunks)))"
proof (induction chunks arbitrary: m)
  case Nil
  then show ?case by (simp add: observed_pages_def List.map_filter_simps)
next
  case (Cons c cs)
  show ?case
  proof (cases "md_page (doc_metadata c)")
    case None
    then show ?thesis using Cons.IH [of m]
      by (simp add: observed_pages_def List.map_filter_simps)
  next
    case (Some p)
    have "Max (insert (max m p) (set (observed_pages cs))) = Max (insert m (insert p (set (observed_pages cs))))"
      by (metis List.finite_set Max_insert finite_insert insert_not_empty max.assoc max.commute Max_singleton insert_commute)
    then show ?thesis using Cons.IH [of "max m p"] Some
      by (simp add: observed_pages_def List.map_filter_simps)
  qed
qed

text \<open>
  C8. The estimate is 3 for chunks on pages 1, 1, 2, 3, 3, 3; it is 4 for twelve chunks
  without page metadata; it is 1 for no chunks.
\<close>

theorem estimate_page_count_examples:
  "estimate_page_count (map chunk_on_page [1, 1, 2, 3, 3, 3]) = 3 \<and>
   estimate_page_count (replicate 12 chunk_without_page) = 4 \<and>
   estimate_page_count [] = 1"
  by (simp add: estimate_page_count_def chunk_on_page_def chunk_without_page_def eval_nat_numeral)

text \<open>
  C4. The estimate should be the largest page index seen in the metadata plus one, the
  loaders counting pages from 0 (as \<^verbatim>\<open>VectorStoreService.query\<close> assumes when it adds
  1). \<^verbatim>\<open>_estimate_page_count\<close> returns the largest index itself, and the chunk-count
  fallback when that index is 0. So a three-page document (pages 0, 1, 2) is estimated
  at 2, a one-page document of seven chunks at 2, a document of 51 pages (0 to 50) at
  50, which passes the default limit of 50, and the sample two-page upload is recorded
  in the session with \<^verbatim>\<open>page_count = 1\<close>.
\<close>

theorem estimate_page_count_zero_indexed_pages:
  "estimate_page_count (map chunk_on_page [0, 1, 2]) = 2 \<and>
   Max (set (observed_pages (map chunk_on_page [0, 1, 2]))) + 1 = 3 \<and>
   estimate_page_count (replicate 7 (chunk_on_page 0)) = 2 \<and>
   Max (set (observed_pages (replicate 7 (chunk_on_page 0)))) + 1 = 1 \<and>
   estimate_page_count (map chunk_on_page [0..50]) = 50 \<and>
   Max (set (observed_pages (map chunk_on_page [0..50]))) + 1 = 51 \<and>
   \<not> estimate_page_count (map chunk_on_page [0..50]) > max_page_limit default_settings \<and>
   page_count (session (fst (process_upload default_settings env_ok initial_world
     \<lparr>uf_filename = Some ''report.pdf'', uf_size = Some 1000\<rparr>))) = 1"
proof -
  have a: "estimate_page_count (map chunk_on_page [0, 1, 2]) = 2 \<and>
      Max (set (observed_pages (map chunk_on_page [0, 1, 2]))) + 1 = 3"
    by (simp add: estimate_page_count_def chunk_on_page_def observed_pages_def
        List.map_filter_simps)
  have b: "estimate_page_count (replicate 7 (chunk_on_page 0)) = 2 \<and>
      Max (set (observed_pages (replicate 7 (chunk_on_page 0)))) + 1 = 1"
    by (simp add: estimate_page_count_def chunk_on_page_def observed_pages_def
        List.map_filter_simps eval_nat_numeral)
  have o: "observed_pages (map chunk_on_page ps) = ps" for ps
    by (induction ps) (simp_all add: observed_pages_def chunk_on_page_def List.map_filter_simps)
  have m: "Max (set [0..50::int]) = 50"
    by (rule Max_eqI) auto
  have c: "estimate_page_count (map chunk_on_page [0..50]) = 50"
  proof -
    have ne: "map chunk_on_page [0..50] \<noteq> []"
      by (simp add: upto.simps)
    have "Max (insert 0 (set (observed_pages (map chunk_on_page [0..50])))) = 50"
      unfolding o by (rule Max_eqI) auto
    then show ?thesis
      using ne by (simp add: estimate_page_count_def foldl_page_step Let_def)
  qed
  have d: "Max (set (observed_pages (map chunk_on_page [0..50]))) + 1 = 51"
    unfolding o m by simp
  have e: "\<not> estimate_page_count (map chunk_on_page [0..50]) > max_page_limit default_settings"
    unfolding c by (simp add: default_settings_def)
  have f: "page_count (session (fst (process_upload default_settings env_ok initial_world
     \<lparr>uf_filename = Some ''report.pdf'', uf_size = Some 1000\<rparr>))) = 1"
    by (simp add: upload_defs sample_defs path_defs Let_def)
  from a b c d e f show ?thesis by blast
qed

section \<open>Properties of the query stream\<close>

lemma RetrievedChunk_valid: "RetrievedChunk c p i s src = Inr chunk \<Longrightarrow> valid_chunk chunk"
  by (auto simp: RetrievedChunk_def valid_chunk_def split: if_splits)

lemma to_chunks_valid:
  "to_chunks results = Inr cs \<Longrightarrow> list_all valid_chunk cs"
proof (induction results arbitrary: cs)
  case Nil
  then show ?case by simp
next
  case (Cons r results)
  obtain doc score where r: "r = (doc, score)" by (cases r)
  from Cons.prems r obtain chunk rest where
    c: "RetrievedChunk (page_content doc) (get_or (md_page (doc_metadata doc)) 0 + 1)
          (get_or (md_chunk_index (doc_metadata doc)) 0) score
          (get_or (md_filename (doc_metadata doc)) (get_or (md_source (doc_metadata doc)) ''unknown''))
        = Inr chunk"
    and t: "to_chunks results = Inr rest" and cs: "cs = chunk # rest"
    by (auto split: sum.splits)
  show ?case
    using RetrievedChunk_valid [OF c] Cons.IH [OF t] cs by simp
qed

lemma query_valid:
  "query cfg ev w name q k = (w1, Inr cs) \<Longrightarrow> list_all valid_chunk cs"
  by (auto simp: query_def Let_def split: sum.splits dest!: to_chunks_valid)

lemma chunks_to_sources_valid:
  "list_all valid_chunk cs \<Longrightarrow> chunks_to_sources cs = Inr (map source_of cs)"
  by (induction cs) (simp_all add: Source_def source_of_def valid_chunk_def)

lemma retrieve_context_sources:
  assumes "retrieve_context cfg svc ev w question name = (w1, Inr ctx)"
  shows "chunks_to_sources (ctx_chunks ctx) = Inr (map source_of (ctx_chunks ctx))"
proof -
  from assms obtain cs where q: "query cfg ev w name question (Some (svc_top_k svc)) = (w1, Inr cs)"
    and c: "ctx_chunks ctx = cs"
    by (auto simp: retrieve_context_def split: prod.splits sum.splits)
  show ?thesis unfolding c by (rule chunks_to_sources_valid) (rule query_valid [OF q])
qed

lemma events_of_token_responses:
  "events_of_responses (map token_response ts @ rs) =
     (map Token_event ts @ fst (events_of_responses rs), snd (events_of_responses rs))"
  by (induction ts) (simp_all add: token_response_def split: prod.splits)

lemma events_of_sources_done:
  "events_of_responses [sources_response ss, done_response] = ([Sources_event ss, Done_event], False)"
  by (simp add: sources_response_def done_response_def)

lemma events_of_success:
  "events_of_responses (map token_response ts @ [sources_response ss, done_response]) =
     (map Token_event ts @ [Sources_event ss, Done_event], False)"
  by (simp only: events_of_token_responses events_of_sources_done fst_conv snd_conv)

lemma events_of_tokens_only:
  "events_of_responses (map token_response ts) = (map Token_event ts, False)"
  using events_of_token_responses [of ts "[]"] by simp

lemma generate_stream_failure:
  "generate_stream ev w prompt sp = (w2, tokens, Some e) \<Longrightarrow> \<exists>m orig. e = LLMError m orig"
  by (auto simp: generate_stream_def Let_def split: prod.splits option.splits)

lemma query_stream_no_session:
  assumes "\<not> is_active (session w) \<or> collection_name (session w) = None"
  shows "query_stream cfg svc ev w question = (w, [], Some NoActiveSessionError)"
  using assms by (auto simp: query_stream_def)

lemma event_generator_no_session:
  assumes "\<not> is_active (session w) \<or> collection_name (session w) = None"
  shows "event_generator cfg svc ev w request =
           (w, [Error_event ''No document loaded. Please upload a document first.''])"
  by (simp add: query_stream_no_session [OF assms] event_generator_def)

text \<open>
  C1. When the session is active, retrieval succeeds and the generation stream ends
  without failure, \<^verbatim>\<open>query_stream\<close> yields one token response per generated fragment,
  then one sources response (built from the retrieved chunks), then one done response,
  and returns; the route turns them into Token events, one Sources event and one Done
  event, with nothing after it.
\<close>

theorem successful_query_stream:
  assumes "is_active (session w)"
    and "collection_name (session w) = Some name" and "name \<noteq> []"
    and "retrieve_context cfg svc ev w question name = (w1, Inr ctx)"
    and "generate_stream ev w1 (build_prompt question ctx) (Some RAG_SYSTEM_PROMPT) = (w2, tokens, None)"
  shows "query_stream cfg svc ev w question =
           (w2, map token_response tokens @
                [sources_response (map source_of (ctx_chunks ctx)), done_response], None) \<and>
         event_generator cfg svc ev w \<lparr>rq_query = question, rq_top_k = t\<rparr> =
           (w2, map Token_event tokens @
                [Sources_event (map source_of (ctx_chunks ctx)), Done_event])"
proof -
  have s: "chunks_to_sources (ctx_chunks ctx) = Inr (map source_of (ctx_chunks ctx))"
    using assms(4) by (rule retrieve_context_sources)
  have q: "query_stream cfg svc ev w question =
      (w2, map token_response tokens @ [sources_response (map source_of (ctx_chunks ctx)), done_response], None)"
    using assms s by (simp add: query_stream_def)
  have "event_generator cfg svc ev w \<lparr>rq_query = question, rq_top_k = t\<rparr> =
           (w2, map Token_event tokens @ [Sources_event (map source_of (ctx_chunks ctx)), Done_event])"
    by (simp add: event_generator_def q events_of_success del: events_of_responses.simps)
  with q show ?thesis by simp
qed

text \<open>C1 on the loaded sample document.\<close>

theorem successful_query_stream_witness:
  "is_active (session loaded_world) \<and>
   collection_name (session loaded_world) = Some ''session_aaaaaaaaaaaa'' \<and>
   snd (query_stream default_settings (get_query_service default_settings) env_ok loaded_world
          ''What is X?'') =
     ([token_response ''The '', token_response ''answer'',
       sources_response
         [\<lparr>src_content = ''text'', src_page_number = 1, src_chunk_index = 0,
           src_relevance_score = 9 / 10, src_filename = ''unknown''\<rparr>,
          \<lparr>src_content = ''text'', src_page_number = 2, src_chunk_index = 0,
           src_relevance_score = 9 / 10, src_filename = ''unknown''\<rparr>],
       done_response], None) \<and>
   snd (event_generator default_settings (get_query_service default_settings) env_ok loaded_world
          \<lparr>rq_query = ''What is X?'', rq_top_k = None\<rparr>) =
     [Token_event ''The '', Token_event ''answer'',
      Sources_event
        [\<lparr>src_content = ''text'', src_page_number = 1, src_chunk_index = 0,
          src_relevance_score = 9 / 10, src_filename = ''unknown''\<rparr>,
         \<lparr>src_content = ''text'', src_page_number = 2, src_chunk_index = 0,
          src_relevance_score = 9 / 10, src_filename = ''unknown''\<rparr>],
      Done_event]"
proof -
  let ?svc = "get_query_service default_settings"
  let ?cs = "[\<lparr>rc_content = ''text'', rc_page_number = 1, rc_chunk_index = 0,
               rc_relevance_score = 9 / 10, rc_source = ''unknown''\<rparr>,
              \<lparr>rc_content = ''text'', rc_page_number = 2, rc_chunk_index = 0,
               rc_relevance_score = 9 / 10, rc_source = ''unknown''\<rparr>]"
  have a: "is_active (session loaded_world)"
    by (simp add: loaded_world_def)
  have n: "collection_name (session loaded_world) = Some ''session_aaaaaaaaaaaa''"
    by (simp add: loaded_world_def)
  have ne: "''session_aaaaaaaaaaaa'' \<noteq> []"
    by simp
  have "\<exists>w1 ctx. retrieve_context default_settings ?svc env_ok loaded_world ''What is X?''
            ''session_aaaaaaaaaaaa'' = (w1, Inr ctx) \<and> ctx_chunks ctx = ?cs"
    by (simp add: query_defs sample_defs Let_def)
  then obtain w1 ctx where
    r: "retrieve_context default_settings ?svc env_ok loaded_world ''What is X?''
          ''session_aaaaaaaaaaaa'' = (w1, Inr ctx)"
    and c: "ctx_chunks ctx = ?cs"
    by blast
  have "\<exists>w2. generate_stream env_ok w1 (build_prompt ''What is X?'' ctx) (Some RAG_SYSTEM_PROMPT) =
          (w2, [''The '', ''answer''], None)"
    by (simp add: generate_stream_def env_ok_def Let_def)
  then obtain w2 where
    g: "generate_stream env_ok w1 (build_prompt ''What is X?'' ctx) (Some RAG_SYSTEM_PROMPT) =
          (w2, [''The '', ''answer''], None)"
    by blast
  show ?thesis
    using successful_query_stream [OF a n ne r g, of None]
    by (simp add: a n c source_of_def)
qed

text \<open>
  C2. With no active session (the flag is off or the collection name is missing),
  \<^verbatim>\<open>query_stream\<close> yields nothing and raises \<^verbatim>\<open>NoActiveSessionError\<close>, nothing is asked
  of the collaborators, and the route's stream is exactly one Error event carrying the
  message of that class.
\<close>

theorem no_session_single_error:
  assumes "\<not> is_active (session w) \<or> collection_name (session w) = None"
  shows "query_stream cfg svc ev w question = (w, [], Some NoActiveSessionError) \<and>
         event_generator cfg svc ev w \<lparr>rq_query = question, rq_top_k = t\<rparr> =
           (w, [Error_event ''No document loaded. Please upload a document first.''])"
  using assms by (simp add: query_stream_no_session event_generator_no_session)

text \<open>C2 on the process at start.\<close>

theorem no_session_single_error_witness:
  "\<not> is_active (session initial_world) \<and>
   query_stream default_settings (get_query_service default_settings) env_ok initial_world
     ''What is X?'' = (initial_world, [], Some NoActiveSessionError) \<and>
   event_generator default_settings (get_query_service default_settings) env_ok initial_world
     \<lparr>rq_query = ''What is X?'', rq_top_k = None\<rparr> =
     (initial_world, [Error_event ''No document loaded. Please upload a document first.''])"
proof -
  have a: "\<not> is_active (session initial_world)"
    by (simp add: initial_world_def SessionState_def)
  then have "\<not> is_active (session initial_world) \<or> collection_name (session initial_world) = None"
    by simp
  from no_session_single_error [OF this] a show ?thesis
    by simp
qed

text \<open>
  C5. When generation fails after the tokens \<open>tokens\<close> were yielded, \<^verbatim>\<open>query_stream\<close>
  has yielded exactly these token responses and raises \<^verbatim>\<open>QueryError\<close>; the route's
  stream is the Token events of these tokens followed by one Error event, with no
  Sources and no Done event.
\<close>

theorem generation_failure_after_tokens:
  assumes "is_active (session w)"
    and "collection_name (session w) = Some name" and "name \<noteq> []"
    and "retrieve_context cfg svc ev w question name = (w1, Inr ctx)"
    and "generate_stream ev w1 (build_prompt question ctx) (Some RAG_SYSTEM_PROMPT) = (w2, tokens, Some e)"
  shows "query_stream cfg svc ev w question =
           (w2, map token_response tokens,
            Some (QueryError ''Failed to generate response from LLM'' (Some e))) \<and>
         event_generator cfg svc ev w \<lparr>rq_query = question, rq_top_k = t\<rparr> =
           (w2, map Token_event tokens @ [Error_event ''Failed to generate response from LLM''])"
proof -
  obtain m orig where e: "e = LLMError m orig"
    using generate_stream_failure [OF assms(5)] by blast
  have q: "query_stream cfg svc ev w question =
           (w2, map token_response tokens,
            Some (QueryError ''Failed to generate response from LLM'' (Some e)))"
    using assms e by (simp add: query_stream_def)
  show ?thesis by (simp add: q event_generator_def events_of_tokens_only)
qed

text \<open>C5 with a model whose stream breaks after two fragments.\<close>

theorem generation_failure_after_tokens_witness:
  "is_active (session loaded_world) \<and>
   snd (query_stream default_settings (get_query_service default_settings)
          (env_ok\<lparr>astream := (\<lambda>messages. ([''The '', ''ans''], Some (LibraryError ''connection reset'')))\<rparr>)
          loaded_world ''What is X?'') =
     ([token_response ''The '', token_response ''ans''],
      Some (QueryError ''Failed to generate response from LLM''
        (Some (LLMError ''Failed to generate streaming response from LLM''
           (Some (LibraryError ''connection reset'')))))) \<and>
   snd (event_generator default_settings (get_query_service default_settings)
          (env_ok\<lparr>astream := (\<lambda>messages. ([''The '', ''ans''], Some (LibraryError ''connection reset'')))\<rparr>)
          loaded_world \<lparr>rq_query = ''What is X?'', rq_top_k = None\<rparr>) =
     [Token_event ''The '', Token_event ''ans'',
      Error_event ''Failed to generate response from LLM'']"
proof -
  let ?svc = "get_query_service default_settings"
  let ?ev = "env_ok\<lparr>astream := (\<lambda>messages. ([''The '', ''ans''], Some (LibraryError ''connection reset'')))\<rparr>"
  have a: "is_active (session loaded_world)"
    by (simp add: loaded_world_def)
  have n: "collection_name (session loaded_world) = Some ''session_aaaaaaaaaaaa''"
    by (simp add: loaded_world_def)
  have ne: "''session_aaaaaaaaaaaa'' \<noteq> []"
    by simp
  have "\<exists>w1 ctx. retrieve_context default_settings ?svc ?ev loaded_world ''What is X?''
            ''session_aaaaaaaaaaaa'' = (w1, Inr ctx)"
    by (simp add: query_defs sample_defs Let_def)
  then obtain w1 ctx where
    r: "retrieve_context default_settings ?svc ?ev loaded_world ''What is X?''
          ''session_aaaaaaaaaaaa'' = (w1, Inr ctx)"
    by blast
  have "\<exists>w2. generate_stream ?ev w1 (build_prompt ''What is X?'' ctx) (Some RAG_SYSTEM_PROMPT) =
          (w2, [''The '', ''ans''],
           Some (LLMError ''Failed to generate streaming response from LLM''
             (Some (LibraryError ''connection reset''))))"
    by (simp add: generate_stream_def env_ok_def Let_def)
  then obtain w2 where
    g: "generate_stream ?ev w1 (build_prompt ''What is X?'' ctx) (Some RAG_SYSTEM_PROMPT) =
          (w2, [''The '', ''ans''],
           Some (LLMError ''Failed to generate streaming response from LLM''
             (Some (LibraryError ''connection reset''))))"
    by blast
  show ?thesis
    using generation_failure_after_tokens [OF a n ne r g, of None]
    by (simp add: a)
qed

text \<open>The route's result does not depend on the \<^verbatim>\<open>top_k\<close> of the request.\<close>

lemma query_document_ignores_top_k: "query_document cfg ev w (request\<lparr>rq_top_k := t\<rparr>) = query_document cfg ev w request"
  by (simp add: query_document_def event_generator_def)


text \<open>
  C3. A request with \<^verbatim>\<open>top_k = 5\<close> is a valid \<^verbatim>\<open>QueryRequest\<close>, yet under the default
  settings (\<^verbatim>\<open>top_k_chunks = 3\<close>) the search that serves it asks Chroma for 3 results, and
  no search asks for 5: the route passes only the query text on.
\<close>

theorem top_k_override_ignored_example:
  "QueryRequest ''What is X?'' (Some 5) = Inr \<lparr>rq_query = ''What is X?'', rq_top_k = Some 5\<rparr> \<and>
   Call_similarity_search ''session_aaaaaaaaaaaa'' ''What is X?'' 3
     \<in> set (calls (fst (query_document default_settings env_ok loaded_world
                           \<lparr>rq_query = ''What is X?'', rq_top_k = Some 5\<rparr>))) \<and>
   Call_similarity_search ''session_aaaaaaaaaaaa'' ''What is X?'' 5
     \<notin> set (calls (fst (query_document default_settings env_ok loaded_world
                           \<lparr>rq_query = ''What is X?'', rq_top_k = Some 5\<rparr>)))"
  by (simp add: QueryRequest_def query_document_def event_generator_def query_stream_def
      query_defs sample_defs Source_def token_response_def sources_response_def
      done_response_def Let_def)

section \<open>Properties of the upload pipeline\<close>

lemma session_delete_collection [simp]: "session (fst (delete_collection ev w n)) = session w"
  by (simp add: delete_collection_def log_call_def Let_def split: option.splits)

lemma files_delete_collection [simp]: "files (fst (delete_collection ev w n)) = files w"
  by (simp add: delete_collection_def log_call_def Let_def split: option.splits)

lemma collections_delete_collection:
  "collections (fst (delete_collection ev w n)) =
     (if n \<in> dom (collections w) \<and> chroma_delete ev n = None
      then (collections w)(n := None) else collections w)"
  by (simp add: delete_collection_def log_call_def Let_def split: option.splits)

lemma calls_delete_collection: "x \<in> set (calls w) \<Longrightarrow> x \<in> set (calls (fst (delete_collection ev w n)))"
  by (simp add: delete_collection_def log_call_def Let_def split: option.splits)

lemma session_cleanup_old_session:
  "session (cleanup_old_session ev w) = (if is_active (session w) then SessionState else session w)"
  by (simp add: cleanup_old_session_def clear_session_def Let_def split: option.splits list.splits)

lemma inactive_cleanup_old_session: "\<not> is_active (session (cleanup_old_session ev w))"
  by (simp add: session_cleanup_old_session SessionState_def)

lemma files_cleanup_old_session [simp]: "files (cleanup_old_session ev w) = files w"
  by (simp add: cleanup_old_session_def Let_def split: option.splits list.splits)

lemma calls_cleanup_old_session: "x \<in> set (calls w) \<Longrightarrow> x \<in> set (calls (cleanup_old_session ev w))"
  by (simp add: cleanup_old_session_def Let_def calls_delete_collection split: option.splits list.splits)

lemma collections_cleanup_old_session:
  assumes "session w1 = session w" and "collections w1 = collections w"
  shows "collections (cleanup_old_session ev w1) = collections (cleanup_old_session ev w)"
proof (cases "is_active (session w)")
  case False
  then show ?thesis using assms by (simp add: cleanup_old_session_def)
next
  case True
  show ?thesis
  proof (cases "collection_name (session w)")
    case None
    then show ?thesis using True assms by (simp add: cleanup_old_session_def)
  next
    case (Some n)
    then show ?thesis using True assms
      by (cases n) (simp_all add: cleanup_old_session_def collections_delete_collection)
  qed
qed

lemma calls_create_collection:
  "x \<in> set (calls w) \<Longrightarrow> x \<in> set (calls (fst (create_collection ev w n d)))"
  by (simp add: create_collection_def log_call_def Let_def split: option.splits)

lemma save_temp_file_ok:
  "tmp_create ev = None \<Longrightarrow> upload_read ev = None \<Longrightarrow>
   save_temp_file ev w file =
     ((log_call (Call_save_temp_file (temp_suffix file)) w)
        \<lparr>files := insert (temp_path ev file) (files w)\<rparr>, Inr (temp_path ev file))"
  by (simp add: save_temp_file_def log_call_def Let_def)

lemma calls_save_temp_file:
  "Call_save_temp_file (temp_suffix file) \<in> set (calls (fst (save_temp_file ev w file)))"
  by (simp add: save_temp_file_def log_call_def Let_def split: option.splits)

lemma create_collection_fails:
  "n \<in> dom (collections w) \<or> from_documents ev n d \<noteq> None \<Longrightarrow>
   \<exists>w' e. create_collection ev w n d = (w', Inl e)"
  by (auto simp: create_collection_def Let_def split: option.splits)

lemma process_saved_failure:
  assumes "process_saved cfg ev w file path = (w', Inl e)"
  shows "\<not> is_active (session w') \<and> (is_active (session w) \<longrightarrow> session w' = SessionState)"
proof -
  let ?w2 = "log_call (Call_process_document path) (cleanup_old_session ev w)"
  have s2: "session ?w2 = (if is_active (session w) then SessionState else session w)"
    by (simp add: log_call_def session_cleanup_old_session)
  have i2: "\<not> is_active (session ?w2)"
    by (simp add: s2 SessionState_def)
  show ?thesis
  proof (cases "process_document ev (files ?w2) path")
    case (Inl x)
    with assms have "w' = ?w2" by (simp add: process_saved_def Let_def)
    with s2 i2 show ?thesis by simp
  next
    case (Inr pd)
    show ?thesis
    proof (cases "estimate_page_count (pd_chunks pd) > max_page_limit cfg")
      case True
      with Inr assms have "w' = ?w2" by (simp add: process_saved_def Let_def)
      with s2 i2 show ?thesis by simp
    next
      case False
      with Inr assms have "session w' = SessionState"
        by (auto simp: process_saved_def Let_def clear_session_def split: prod.splits sum.splits)
      then show ?thesis by (simp add: SessionState_def)
    qed
  qed
qed

text \<open>
  C9. When \<^verbatim>\<open>process_upload\<close> fails after validation and the temp file succeeded, so
  after the previous session was cleared, the registry ends inactive; if a session was
  active before, the state is back at its defaults and the old session is not restored;
  a query made in the resulting state gets the single "no document" Error event.
\<close>

theorem failed_upload_leaves_registry_inactive:
  assumes "validate_file cfg file = None"
    and "tmp_create ev = None" and "upload_read ev = None"
    and "process_upload cfg ev w file = (w', Inl e)"
  shows "\<not> is_active (session w') \<and>
         (is_active (session w) \<longrightarrow> session w' = SessionState) \<and>
         event_generator cfg svc ev2 w' request =
           (w', [Error_event ''No document loaded. Please upload a document first.''])"
proof -
  let ?w1 = "(log_call (Call_save_temp_file (temp_suffix file)) w)\<lparr>files := insert (temp_path ev file) (files w)\<rparr>"
  obtain w2 r where p: "process_saved cfg ev ?w1 file (temp_path ev file) = (w2, r)"
    by (cases "process_saved cfg ev ?w1 file (temp_path ev file)")
  from assms p obtain e' where r: "r = Inl e'" and w': "w' = cleanup_temp_file w2 (temp_path ev file)"
    by (auto simp: process_upload_def save_temp_file_ok split: sum.splits)
  have "\<not> is_active (session w2) \<and> (is_active (session ?w1) \<longrightarrow> session w2 = SessionState)"
    using p r by (auto dest: process_saved_failure)
  then have i: "\<not> is_active (session w') \<and> (is_active (session w) \<longrightarrow> session w' = SessionState)"
    by (simp add: w' cleanup_temp_file_def log_call_def)
  then have "event_generator cfg svc ev2 w' request =
           (w', [Error_event ''No document loaded. Please upload a document first.''])"
    by (simp add: event_generator_no_session)
  with i show ?thesis by simp
qed

text \<open>
  C9 on an upload the processor rejects, on one over the page limit and on one whose
  indexing raises, each made while a document is loaded.
\<close>

theorem failed_upload_leaves_registry_inactive_witness:
  "is_active (session loaded_world) \<and>
   snd (process_upload default_settings env_ok loaded_world \<lparr>uf_filename = None, uf_size = None\<rparr>) =
     Inl (UnsupportedFileTypeError ''tmp'' [''pdf'', ''txt'', ''docx'']) \<and>
   session (fst (process_upload default_settings env_ok loaded_world
                   \<lparr>uf_filename = None, uf_size = None\<rparr>)) = SessionState \<and>
   snd (event_generator default_settings (get_query_service default_settings) env_ok
          (fst (process_upload default_settings env_ok loaded_world
                  \<lparr>uf_filename = None, uf_size = None\<rparr>))
          \<lparr>rq_query = ''What is X?'', rq_top_k = None\<rparr>) =
     [Error_event ''No document loaded. Please upload a document first.''] \<and>
   snd (process_upload (default_settings\<lparr>max_page_limit := 0\<rparr>) env_ok loaded_world
          \<lparr>uf_filename = Some ''b.txt'', uf_size = Some 10\<rparr>) =
     Inl (PageLimitExceededError 1 0) \<and>
   session (fst (process_upload (default_settings\<lparr>max_page_limit := 0\<rparr>) env_ok loaded_world
                   \<lparr>uf_filename = Some ''b.txt'', uf_size = Some 10\<rparr>)) = SessionState \<and>
   snd (process_upload default_settings
          (env_ok\<lparr>from_documents := (\<lambda>name documents. Some (LibraryError ''embedding failed''))\<rparr>)
          loaded_world \<lparr>uf_filename = Some ''b.txt'', uf_size = Some 10\<rparr>) =
     Inl (ProcessingError ''Failed to create vector store collection''
           (Some (LibraryError ''embedding failed''))) \<and>
   session (fst (process_upload default_settings
          (env_ok\<lparr>from_documents := (\<lambda>name documents. Some (LibraryError ''embedding failed''))\<rparr>)
          loaded_world \<lparr>uf_filename = Some ''b.txt'', uf_size = Some 10\<rparr>)) = SessionState"
proof -
  let ?f = "\<lparr>uf_filename = None, uf_size = None\<rparr>"
  let ?g = "\<lparr>uf_filename = Some ''b.txt'', uf_size = Some 10\<rparr>"
  let ?cfg = "default_settings\<lparr>max_page_limit := 0\<rparr>"
  let ?ev = "env_ok\<lparr>from_documents := (\<lambda>name documents. Some (LibraryError ''embedding failed''))\<rparr>"
  let ?svc = "get_query_service default_settings"
  let ?rq = "\<lparr>rq_query = ''What is X?'', rq_top_k = None\<rparr>"
  have a: "is_active (session loaded_world)"
    by (simp add: loaded_world_def)
  have c: "tmp_create env_ok = None" and u: "upload_read env_ok = None"
    by (simp_all add: env_ok_def)
  have c3: "tmp_create ?ev = None" and u3: "upload_read ?ev = None"
    by (simp_all add: env_ok_def)
  have v1: "validate_file default_settings ?f = None"
    by (simp add: validate_file_def)
  have r1: "snd (process_upload default_settings env_ok loaded_world ?f) =
              Inl (UnsupportedFileTypeError ''tmp'' [''pdf'', ''txt'', ''docx''])"
    by (simp add: upload_defs sample_defs path_defs Let_def)
  then have p1: "process_upload default_settings env_ok loaded_world ?f =
              (fst (process_upload default_settings env_ok loaded_world ?f),
               Inl (UnsupportedFileTypeError ''tmp'' [''pdf'', ''txt'', ''docx'']))"
    by (simp add: prod_eq_iff)
  have v2: "validate_file ?cfg ?g = None"
    by (simp add: validate_file_def default_settings_def path_defs Let_def)
  have r2: "snd (process_upload ?cfg env_ok loaded_world ?g) = Inl (PageLimitExceededError 1 0)"
    by (simp add: upload_defs sample_defs path_defs Let_def)
  then have p2: "process_upload ?cfg env_ok loaded_world ?g =
              (fst (process_upload ?cfg env_ok loaded_world ?g), Inl (PageLimitExceededError 1 0))"
    by (simp add: prod_eq_iff)
  have v3: "validate_file default_settings ?g = None"
    by (simp add: validate_file_def default_settings_def path_defs Let_def)
  have r3: "snd (process_upload default_settings ?ev loaded_world ?g) =
              Inl (ProcessingError ''Failed to create vector store collection''
                    (Some (LibraryError ''embedding failed'')))"
    by (simp add: upload_defs sample_defs path_defs Let_def)
  then have p3: "process_upload default_settings ?ev loaded_world ?g =
              (fst (process_upload default_settings ?ev loaded_world ?g),
               Inl (ProcessingError ''Failed to create vector store collection''
                     (Some (LibraryError ''embedding failed''))))"
    by (simp add: prod_eq_iff)
  show ?thesis
    using failed_upload_leaves_registry_inactive [OF v1 c u p1, of ?svc env_ok ?rq]
      failed_upload_leaves_registry_inactive [OF v2 c u p2, of ?svc env_ok ?rq]
      failed_upload_leaves_registry_inactive [OF v3 c3 u3 p3, of ?svc env_ok ?rq] a r1 r2 r3
    by simp
qed

text \<open>
  C6. When the upload reaches the creation of the collection and that creation fails
  (Chroma's indexing raises, or the name is already tracked), \<^verbatim>\<open>process_upload\<close>
  raises \<^verbatim>\<open>ProcessingError\<close> and leaves the registry inactive with no collection name.
\<close>

theorem create_collection_failure_rolls_back:
  assumes "validate_file cfg file = None"
    and "tmp_create ev = None" and "upload_read ev = None"
    and "process_document ev (insert (temp_path ev file) (files w)) (temp_path ev file) = Inr pd"
    and "estimate_page_count (pd_chunks pd) \<le> max_page_limit cfg"
    and "from_documents ev (''session_'' @ take 12 (uuid4_hex ev)) (pd_chunks pd) \<noteq> None \<or>
         ''session_'' @ take 12 (uuid4_hex ev) \<in> dom (collections (cleanup_old_session ev w))"
  shows "\<exists>w' e. process_upload cfg ev w file =
           (w', Inl (ProcessingError ''Failed to create vector store collection'' (Some e))) \<and>
         \<not> is_active (session w') \<and> collection_name (session w') = None"
proof -
  let ?path = "temp_path ev file"
  let ?name = "''session_'' @ take 12 (uuid4_hex ev)"
  let ?w1 = "(log_call (Call_save_temp_file (temp_suffix file)) w)\<lparr>files := insert ?path (files w)\<rparr>"
  let ?w2 = "log_call (Call_process_document ?path) (cleanup_old_session ev ?w1)"
  let ?fn = "case uf_filename file of Some (c # cs) \<Rightarrow> c # cs | _ \<Rightarrow> pd_filename pd"
  let ?created = "create_session (uuid4_hex ev) (utcnow ev) (session ?w2) ?fn
                    (estimate_page_count (pd_chunks pd)) (pd_total_chunks pd)"
  let ?w3 = "?w2\<lparr>session := snd ?created\<rparr>"
  have f2: "files ?w2 = insert ?path (files w)"
    by (simp add: log_call_def)
  have "collections (cleanup_old_session ev ?w1) = collections (cleanup_old_session ev w)"
    by (rule collections_cleanup_old_session) (simp_all add: log_call_def)
  then have c3: "collections ?w3 = collections (cleanup_old_session ev w)"
    by (simp add: log_call_def)
  have n: "fst ?created = ?name"
    by (simp add: create_session_def Let_def)
  have "?name \<in> dom (collections ?w3) \<or> from_documents ev ?name (pd_chunks pd) \<noteq> None"
    using assms(6) c3 by auto
  then obtain w4 e where cc: "create_collection ev ?w3 ?name (pd_chunks pd) = (w4, Inl e)"
    using create_collection_fails by blast
  have ps: "process_saved cfg ev ?w1 file ?path =
          (w4\<lparr>session := snd (clear_session (session w4))\<rparr>,
           Inl (ProcessingError ''Failed to create vector store collection'' (Some e)))"
    unfolding process_saved_def Let_def f2
    using assms(4,5) cc n by (simp add: Let_def)
  have "process_upload cfg ev w file =
          (cleanup_temp_file (w4\<lparr>session := snd (clear_session (session w4))\<rparr>) ?path,
           Inl (ProcessingError ''Failed to create vector store collection'' (Some e)))"
    using assms(1-3) ps by (simp add: process_upload_def save_temp_file_ok)
  moreover have "\<not> is_active (session (cleanup_temp_file (w4\<lparr>session := snd (clear_session (session w4))\<rparr>) ?path))"
    by (simp add: cleanup_temp_file_def clear_session_def SessionState_def)
  moreover have "collection_name (session (cleanup_temp_file (w4\<lparr>session := snd (clear_session (session w4))\<rparr>) ?path)) = None"
    by (simp add: cleanup_temp_file_def clear_session_def SessionState_def)
  ultimately show ?thesis by blast
qed

text \<open>C6 with an indexing that raises.\<close>

theorem create_collection_failure_rolls_back_witness:
  "validate_file default_settings \<lparr>uf_filename = Some ''b.txt'', uf_size = Some 10\<rparr> = None \<and>
   is_active (session loaded_world) \<and>
   (\<exists>e. snd (process_upload default_settings
              (env_ok\<lparr>from_documents := (\<lambda>name documents. Some (LibraryError ''embedding failed''))\<rparr>)
              loaded_world \<lparr>uf_filename = Some ''b.txt'', uf_size = Some 10\<rparr>) =
          Inl (ProcessingError ''Failed to create vector store collection'' (Some e))) \<and>
   \<not> is_active (session (fst (process_upload default_settings
              (env_ok\<lparr>from_documents := (\<lambda>name documents. Some (LibraryError ''embedding failed''))\<rparr>)
              loaded_world \<lparr>uf_filename = Some ''b.txt'', uf_size = Some 10\<rparr>))) \<and>
   collection_name (session (fst (process_upload default_settings
              (env_ok\<lparr>from_documents := (\<lambda>name documents. Some (LibraryError ''embedding failed''))\<rparr>)
              loaded_world \<lparr>uf_filename = Some ''b.txt'', uf_size = Some 10\<rparr>))) = None"
proof -
  let ?ev = "env_ok\<lparr>from_documents := (\<lambda>name documents. Some (LibraryError ''embedding failed''))\<rparr>"
  let ?f = "\<lparr>uf_filename = Some ''b.txt'', uf_size = Some 10\<rparr>"
  have v: "validate_file default_settings ?f = None"
    by (simp add: validate_file_def default_settings_def path_defs Let_def)
  have a: "is_active (session loaded_world)"
    by (simp add: loaded_world_def)
  have c: "tmp_create ?ev = None" and u: "upload_read ?ev = None"
    by (simp_all add: env_ok_def)
  have "\<exists>pd. process_document ?ev (insert (temp_path ?ev ?f) (files loaded_world)) (temp_path ?ev ?f)
            = Inr pd \<and>
          estimate_page_count (pd_chunks pd) \<le> max_page_limit default_settings"
    by (simp add: upload_defs sample_defs path_defs Let_def)
  then obtain pd where
    p: "process_document ?ev (insert (temp_path ?ev ?f) (files loaded_world)) (temp_path ?ev ?f)
          = Inr pd"
    and l: "estimate_page_count (pd_chunks pd) \<le> max_page_limit default_settings"
    by blast
  have d: "from_documents ?ev (''session_'' @ take 12 (uuid4_hex ?ev)) (pd_chunks pd) \<noteq> None \<or>
        ''session_'' @ take 12 (uuid4_hex ?ev) \<in> dom (collections (cleanup_old_session ?ev loaded_world))"
    by simp
  from create_collection_failure_rolls_back [OF v c u p l d] v a show ?thesis
    by auto
qed

lemma calls_process_saved_step:
  assumes x2: "x \<in> set (calls (log_call (Call_process_document path) (cleanup_old_session ev w)))"
  shows "x \<in> set (calls (fst (process_saved cfg ev w file path)))"
proof -
  let ?w2 = "log_call (Call_process_document path) (cleanup_old_session ev w)"
  show ?thesis
  proof (cases "process_document ev (files ?w2) path")
    case (Inl e)
    then show ?thesis using x2 by (simp add: process_saved_def Let_def)
  next
    case (Inr pd)
    show ?thesis
    proof (cases "estimate_page_count (pd_chunks pd) > max_page_limit cfg")
      case True
      with Inr show ?thesis using x2 by (simp add: process_saved_def Let_def)
    next
      case False
      let ?fn = "case uf_filename file of Some (c # cs) \<Rightarrow> c # cs | _ \<Rightarrow> pd_filename pd"
      let ?created = "create_session (uuid4_hex ev) (utcnow ev) (session ?w2) ?fn
                        (estimate_page_count (pd_chunks pd)) (pd_total_chunks pd)"
      let ?w3 = "?w2\<lparr>session := snd ?created\<rparr>"
      obtain w4 r where cc: "create_collection ev ?w3 (fst ?created) (pd_chunks pd) = (w4, r)"
        by (cases "create_collection ev ?w3 (fst ?created) (pd_chunks pd)")
      have "x \<in> set (calls ?w3)" using x2 by simp
      then have "x \<in> set (calls (fst (create_collection ev ?w3 (fst ?created) (pd_chunks pd))))"
        by (rule calls_create_collection)
      then have x4: "x \<in> set (calls w4)" using cc by simp
      have ps: "process_saved cfg ev w file path =
              (case r of
                 Inl e \<Rightarrow> (w4\<lparr>session := snd (clear_session (session w4))\<rparr>,
                           Inl (ProcessingError ''Failed to create vector store collection'' (Some e)))
               | Inr n \<Rightarrow> (w4, Inr \<lparr>resp_filename = ?fn,
                                     resp_file_type = pd_file_type pd,
                                     resp_total_chunks = pd_total_chunks pd,
                                     resp_message = ''Document uploaded and processed successfully''\<rparr>))"
        unfolding process_saved_def Let_def using Inr False cc by simp
      show ?thesis unfolding ps using x4 by (cases r) simp_all
    qed
  qed
qed

lemma calls_process_saved_mono:
  "x \<in> set (calls w) \<Longrightarrow> x \<in> set (calls (fst (process_saved cfg ev w file path)))"
  by (rule calls_process_saved_step) (simp add: log_call_def calls_cleanup_old_session)

lemma calls_process_saved:
  "Call_process_document path \<in> set (calls (fst (process_saved cfg ev w file path)))"
  by (rule calls_process_saved_step) (simp add: log_call_def)

lemma calls_process_upload_save:
  assumes "validate_file cfg file = None"
  shows "Call_save_temp_file (temp_suffix file) \<in> set (calls (fst (process_upload cfg ev w file)))"
proof (cases "save_temp_file ev w file")
  case (Pair w1 r)
  have in1: "Call_save_temp_file (temp_suffix file) \<in> set (calls w1)"
    using calls_save_temp_file [of "file" ev w] Pair by simp
  show ?thesis
  proof (cases r)
    case (Inl e)
    with Pair assms in1 show ?thesis by (simp add: process_upload_def)
  next
    case (Inr path)
    have "Call_save_temp_file (temp_suffix file) \<in> set (calls (fst (process_saved cfg ev w1 file path)))"
      using in1 by (rule calls_process_saved_mono)
    moreover obtain w2 r2 where "process_saved cfg ev w1 file path = (w2, r2)"
      by (cases "process_saved cfg ev w1 file path")
    ultimately show ?thesis using Pair Inr assms
      by (cases r2) (simp_all add: process_upload_def cleanup_temp_file_def)
  qed
qed

lemma calls_process_upload_process:
  assumes "validate_file cfg file = None" and "tmp_create ev = None" and "upload_read ev = None"
  shows "Call_process_document (temp_path ev file) \<in> set (calls (fst (process_upload cfg ev w file)))"
proof -
  let ?w1 = "(log_call (Call_save_temp_file (temp_suffix file)) w)\<lparr>files := insert (temp_path ev file) (files w)\<rparr>"
  have "Call_process_document (temp_path ev file) \<in> set (calls (fst (process_saved cfg ev ?w1 file (temp_path ev file))))"
    by (rule calls_process_saved)
  moreover obtain w2 r where "process_saved cfg ev ?w1 file (temp_path ev file) = (w2, r)"
    by (cases "process_saved cfg ev ?w1 file (temp_path ev file)")
  ultimately show ?thesis using assms
    by (cases r) (simp_all add: process_upload_def save_temp_file_ok cleanup_temp_file_def)
qed

text \<open>
  C10. \<^verbatim>\<open>_validate_file\<close> never rejects the extension of an upload whose filename is
  missing or empty, and never rejects the size of an upload whose size is missing or
  zero; an upload with neither passes validation. Every upload that passes validation
  goes on to the temp-file save (with the suffix \<open>.tmp\<close> when it has no filename), and
  once that is saved the document processor is called on the temp file.
\<close>

theorem validate_file_skips_missing_fields:
  "(uf_filename file = None \<or> uf_filename file = Some [] \<longrightarrow>
      (\<forall>x a. validate_file cfg file \<noteq> Some (UnsupportedFileTypeError x a)) \<and>
      temp_suffix file = ''.tmp'') \<and>
   (uf_size file = None \<or> uf_size file = Some 0 \<longrightarrow>
      (\<forall>s m. validate_file cfg file \<noteq> Some (FileTooLargeError s m))) \<and>
   ((uf_filename file = None \<or> uf_filename file = Some []) \<and>
    (uf_size file = None \<or> uf_size file = Some 0) \<longrightarrow>
      validate_file cfg file = None) \<and>
   (validate_file cfg file = None \<longrightarrow>
      Call_save_temp_file (temp_suffix file)
        \<in> set (calls (fst (process_upload cfg ev w file))) \<and>
      (tmp_create ev = None \<and> upload_read ev = None \<longrightarrow>
         Call_process_document (tmp_prefix ev @ temp_suffix file)
           \<in> set (calls (fst (process_upload cfg ev w file)))))"
proof (intro conjI impI allI)
  fix x a
  assume "uf_filename file = None \<or> uf_filename file = Some []"
  then show "validate_file cfg file \<noteq> Some (UnsupportedFileTypeError x a)"
    by (auto simp: validate_file_def Let_def split: option.splits if_splits)
next
  assume "uf_filename file = None \<or> uf_filename file = Some []"
  then show "temp_suffix file = ''.tmp''"
    by (auto simp: temp_suffix_def)
next
  fix s m
  assume "uf_size file = None \<or> uf_size file = Some 0"
  then show "validate_file cfg file \<noteq> Some (FileTooLargeError s m)"
    by (auto simp: validate_file_def Let_def split: option.splits list.splits if_splits)
next
  assume "(uf_filename file = None \<or> uf_filename file = Some []) \<and>
    (uf_size file = None \<or> uf_size file = Some 0)"
  then show "validate_file cfg file = None"
    by (auto simp: validate_file_def)
next
  assume v: "validate_file cfg file = None"
  show "Call_save_temp_file (temp_suffix file) \<in> set (calls (fst (process_upload cfg ev w file)))"
    using v by (rule calls_process_upload_save)
  assume "tmp_create ev = None \<and> upload_read ev = None"
  then show "Call_process_document (tmp_prefix ev @ temp_suffix file)
      \<in> set (calls (fst (process_upload cfg ev w file)))"
    using calls_process_upload_process [OF v, of ev w] by (simp add: temp_path_def)
qed

text \<open>
  C10 on an upload with no filename and no size, under settings that allow no
  extension and no size.
\<close>

theorem validate_file_skips_missing_fields_witness:
  "uf_filename \<lparr>uf_filename = None, uf_size = None\<rparr> = None \<and>
   uf_size \<lparr>uf_filename = None, uf_size = None\<rparr> = None \<and>
   tmp_create env_ok = None \<and> upload_read env_ok = None \<and>
   validate_file (default_settings\<lparr>allowed_extensions := [], max_file_size_mb := 0\<rparr>)
     \<lparr>uf_filename = None, uf_size = None\<rparr> = None \<and>
   Call_save_temp_file ''.tmp''
     \<in> set (calls (fst (process_upload
           (default_settings\<lparr>allowed_extensions := [], max_file_size_mb := 0\<rparr>)
           env_ok loaded_world \<lparr>uf_filename = None, uf_size = None\<rparr>))) \<and>
   Call_process_document ''/tmp/tmpa1b2c3.tmp''
     \<in> set (calls (fst (process_upload
           (default_settings\<lparr>allowed_extensions := [], max_file_size_mb := 0\<rparr>)
           env_ok loaded_world \<lparr>uf_filename = None, uf_size = None\<rparr>)))"
proof -
  let ?f = "\<lparr>uf_filename = None, uf_size = None\<rparr>"
  let ?cfg = "default_settings\<lparr>allowed_extensions := [], max_file_size_mb := 0\<rparr>"
  note t = validate_file_skips_missing_fields [of ?f ?cfg env_ok loaded_world]
  have n: "uf_filename ?f = None" and z: "uf_size ?f = None"
    by simp_all
  have c: "tmp_create env_ok = None" and u: "upload_read env_ok = None"
    by (simp_all add: env_ok_def)
  have p: "tmp_prefix env_ok = ''/tmp/tmpa1b2c3''"
    by (simp add: env_ok_def)
  from t n have sfx: "temp_suffix ?f = ''.tmp''"
    by blast
  from t n z have v: "validate_file ?cfg ?f = None"
    by blast
  from t v have s: "Call_save_temp_file (temp_suffix ?f)
      \<in> set (calls (fst (process_upload ?cfg env_ok loaded_world ?f)))"
    by blast
  from t v c u have d: "Call_process_document (tmp_prefix env_ok @ temp_suffix ?f)
      \<in> set (calls (fst (process_upload ?cfg env_ok loaded_world ?f)))"
    by blast
  from s d show ?thesis
    unfolding sfx p using n z c u v by simp
qed

end
